theory Spec2Isabelle
  imports Complex_Main
begin

section \<open>The stock dashboard macro of \<^verbatim>\<open>demo_automation.py\<close>\<close>

text \<open>
  The script is one function, \<^verbatim>\<open>main\<close>, that reads a ticker from a named cell,
  recreates the sheet "Stock Dashboard", fetches a month of daily prices, writes a
  report into the sheet, inserts a chart and shows an alert. It talks to three
  collaborators: the spreadsheet host (through xlwings), the market-data client
  (yfinance) and the clock. The model makes each of them explicit:
  \<^item> the workbook and the alerts shown so far are the state \<open>world\<close> that \<open>main\<close>
    takes and returns;
  \<^item> what the named cell holds, what the data client answers and what the clock reads
    are the fields of the environment \<open>env\<close>;
  \<^item> an exception that leaves \<^verbatim>\<open>main\<close> uncaught is the outcome \<open>Raised\<close>.
\<close>

subsection \<open>Python values\<close>

text \<open>
  Strings are byte lists; \<^verbatim>\<open>str.upper\<close> and \<^verbatim>\<open>str.lower\<close> are modelled on the ASCII
  letters and leave every other byte alone.
\<close>

definition upper_char :: "char \<Rightarrow> char" where
  "upper_char c =
     (let n = (of_char c :: nat) in if 97 \<le> n \<and> n \<le> 122 then char_of (n - 32) else c)"

definition lower_char :: "char \<Rightarrow> char" where
  "lower_char c =
     (let n = (of_char c :: nat) in if 65 \<le> n \<and> n \<le> 90 then char_of (n + 32) else c)"

definition upper :: "string \<Rightarrow> string" where
  "upper s = map upper_char s"

definition lower :: "string \<Rightarrow> string" where
  "lower s = map lower_char s"

text \<open>
  The prices are numpy \<^verbatim>\<open>float64\<close> scalars. Their arithmetic is idealised: finite
  values are real numbers and the operations on them are exact (no rounding, no
  overflow, no negative zero). What is kept of IEEE arithmetic is the result of a
  division by zero, which numpy does not raise but returns as \<^verbatim>\<open>inf\<close>, \<^verbatim>\<open>-inf\<close> or
  \<^verbatim>\<open>nan\<close>.
\<close>

datatype fval = Fin real | PInf | NInf | NaN

definition np_div :: "real \<Rightarrow> real \<Rightarrow> fval" where
  "np_div a b =
     (if b = 0 then (if a = 0 then NaN else if 0 < a then PInf else NInf)
      else Fin (a / b))"

definition np_mul :: "fval \<Rightarrow> real \<Rightarrow> fval" where
  "np_mul x c =
     (case x of
        Fin a \<Rightarrow> Fin (a * c)
      | NaN \<Rightarrow> NaN
      | PInf \<Rightarrow> (if c = 0 then NaN else if 0 < c then PInf else NInf)
      | NInf \<Rightarrow> (if c = 0 then NaN else if 0 < c then NInf else PInf))"

definition is_finite :: "fval \<Rightarrow> bool" where
  "is_finite x = (case x of Fin _ \<Rightarrow> True | _ \<Rightarrow> False)"

text \<open>
  \<^verbatim>\<open>Series.max\<close>, \<^verbatim>\<open>Series.min\<close> and \<^verbatim>\<open>Series.mean\<close> of pandas: a running
  maximum, minimum and sum over the column; \<^verbatim>\<open>nan\<close> on an empty column.
\<close>

definition series_max :: "real list \<Rightarrow> fval" where
  "series_max xs = (case xs of [] \<Rightarrow> NaN | x # r \<Rightarrow> Fin (foldl max x r))"

definition series_min :: "real list \<Rightarrow> fval" where
  "series_min xs = (case xs of [] \<Rightarrow> NaN | x # r \<Rightarrow> Fin (foldl min x r))"

definition series_mean :: "real list \<Rightarrow> fval" where
  "series_mean xs =
     (case xs of [] \<Rightarrow> NaN | _ # _ \<Rightarrow> Fin (foldl (+) 0 xs / real (length xs)))"

text \<open>
  \<^verbatim>\<open>DataFrame.round(2)\<close>: to the nearest multiple of 0.01, a tie going to the even
  neighbour.
\<close>

definition rint :: "real \<Rightarrow> int" where
  "rint x =
     (let f = \<lfloor>x\<rfloor>; d = x - of_int f in
      if d < 1 / 2 then f else if 1 / 2 < d then f + 1 else if even f then f else f + 1)"

definition round2 :: "real \<Rightarrow> real" where
  "round2 x = of_int (rint (x * 100)) / 100"

text \<open>
  Formatted text. The renderings of a float by a format specification and of a
  time by \<^verbatim>\<open>strftime\<close> are kept symbolic: a piece of text names the format and
  carries the value formatted. A Python string is a list of pieces.
\<close>

datatype fspec = F2 | Plus_F2 | Comma_F0

type_synonym datetime = nat

datatype piece = Lit string | Fmt fspec fval | Strftime string datetime

type_synonym pystr = "piece list"

subsection \<open>The spreadsheet host\<close>

datatype column = ColA | ColB | ColC | ColD | ColE | ColF | ColG | ColH | ColI | ColJ | ColK

type_synonym addr = "column \<times> nat"

type_synonym rgb = "nat \<times> nat \<times> nat"

datatype cell_value = Empty | Str pystr | Num fval

text \<open>A cell: its value and the formats the script sets (\<open>None\<close>: the host's default).\<close>

record cell =
  cvalue :: cell_value
  font_size :: "nat option"
  font_bold :: "bool option"
  font_color :: "rgb option"
  number_format :: "string option"
  fill_color :: "rgb option"
  border_weight :: "nat option"

definition blank_cell :: cell where
  "blank_cell = \<lparr>cvalue = Empty, font_size = None, font_bold = None, font_color = None,
     number_format = None, fill_color = None, border_weight = None\<rparr>"

datatype bar_color = Green | Red

text \<open>The matplotlib figure: what the two panels are asked to draw.\<close>

record figure =
  fig_title :: string
  price_line :: "(datetime \<times> real) list"
  max_marker :: "datetime option \<times> fval"
  min_marker :: "datetime option \<times> fval"
  volume_bars :: "(datetime \<times> int \<times> bar_color) list"

record picture =
  pname :: string
  anchor :: addr
  pwidth :: nat
  pheight :: nat
  pimage :: figure

record sheet =
  sname :: string
  cells :: "addr \<Rightarrow> cell"
  autofitted :: "column list"
  pictures :: "picture list"

definition blank_sheet :: "string \<Rightarrow> sheet" where
  "blank_sheet n = \<lparr>sname = n, cells = (\<lambda>_. blank_cell), autofitted = [], pictures = []\<rparr>"

text \<open>
  The workbook: its sheets in tab order and the name of the active sheet (\<open>None\<close>
  once the active sheet has been deleted: which sheet the host activates next is
  its own choice).
\<close>

record book =
  sheets :: "sheet list"
  active :: "string option"

datatype py_error = IndexError | ValueError | HostError

text \<open>The host compares sheet names without regard to case.\<close>

definition same_name :: "string \<Rightarrow> string \<Rightarrow> bool" where
  "same_name a b = (lower a = lower b)"

text \<open>\<^verbatim>\<open>wb.sheets[name]\<close>: the position of the sheet of that name, an error if there is none.\<close>

fun sheets_index :: "string \<Rightarrow> sheet list \<Rightarrow> nat option" where
  "sheets_index n [] = None"
| "sheets_index n (s # ss) =
     (if same_name (sname s) n then Some 0 else map_option Suc (sheets_index n ss))"

definition sheets_getitem :: "book \<Rightarrow> string \<Rightarrow> py_error + nat" where
  "sheets_getitem b n = (case sheets_index n (sheets b) of None \<Rightarrow> Inl HostError | Some i \<Rightarrow> Inr i)"

text \<open>\<^verbatim>\<open>wb.sheets[0]\<close>.\<close>

definition sheets_first :: "book \<Rightarrow> py_error + nat" where
  "sheets_first b = (if sheets b = [] then Inl IndexError else Inr 0)"

text \<open>
  \<^verbatim>\<open>Sheet.delete\<close>: the host refuses to delete the only sheet of a workbook.
\<close>

definition sheet_delete :: "nat \<Rightarrow> book \<Rightarrow> py_error + book" where
  "sheet_delete i b =
     (if length (sheets b) \<le> 1 \<or> length (sheets b) \<le> i then Inl HostError
      else Inr \<lparr>sheets = take i (sheets b) @ drop (Suc i) (sheets b),
                active = (if active b = Some (sname (sheets b ! i)) then None else active b)\<rparr>)"

text \<open>
  \<^verbatim>\<open>Sheets.add(name, after=sheet)\<close>: xlwings raises \<^verbatim>\<open>ValueError\<close> when a sheet of that
  name is present; otherwise a blank sheet is inserted behind the given one.
\<close>

definition sheets_add :: "string \<Rightarrow> nat \<Rightarrow> book \<Rightarrow> py_error + book" where
  "sheets_add n after b =
     (if lower n \<in> set (map (\<lambda>s. lower (sname s)) (sheets b)) then Inl ValueError
      else Inr (b\<lparr>sheets := take (Suc after) (sheets b) @ [blank_sheet n]
                               @ drop (Suc after) (sheets b)\<rparr>))"

definition sheet_activate :: "nat \<Rightarrow> book \<Rightarrow> book" where
  "sheet_activate i b = b\<lparr>active := Some (sname (sheets b ! i))\<rparr>"

text \<open>Writing through the handle of the sheet at position \<open>i\<close>.\<close>

definition on_sheet :: "nat \<Rightarrow> (sheet \<Rightarrow> sheet) \<Rightarrow> book \<Rightarrow> book" where
  "on_sheet i f b = b\<lparr>sheets := (sheets b)[i := f (sheets b ! i)]\<rparr>"

text \<open>Range operations: one cell, and a block of columns over the rows \<open>lo..hi\<close>.\<close>

definition upd_cell :: "addr \<Rightarrow> (cell \<Rightarrow> cell) \<Rightarrow> sheet \<Rightarrow> sheet" where
  "upd_cell a f s = s\<lparr>cells := (cells s)(a := f (cells s a))\<rparr>"

definition upd_block :: "column list \<Rightarrow> nat \<Rightarrow> nat \<Rightarrow> (cell \<Rightarrow> cell) \<Rightarrow> sheet \<Rightarrow> sheet" where
  "upd_block cs lo hi f s =
     s\<lparr>cells := (\<lambda>(c, r). if c \<in> set cs \<and> lo \<le> r \<and> r \<le> hi then f (cells s (c, r))
                           else cells s (c, r))\<rparr>"

definition set_value :: "addr \<Rightarrow> cell_value \<Rightarrow> sheet \<Rightarrow> sheet" where
  "set_value a v = upd_cell a (\<lambda>c. c\<lparr>cvalue := v\<rparr>)"

definition set_font_size :: "addr \<Rightarrow> nat \<Rightarrow> sheet \<Rightarrow> sheet" where
  "set_font_size a n = upd_cell a (\<lambda>c. c\<lparr>font_size := Some n\<rparr>)"

definition set_font_bold :: "addr \<Rightarrow> bool \<Rightarrow> sheet \<Rightarrow> sheet" where
  "set_font_bold a v = upd_cell a (\<lambda>c. c\<lparr>font_bold := Some v\<rparr>)"

definition set_font_color :: "addr \<Rightarrow> rgb \<Rightarrow> sheet \<Rightarrow> sheet" where
  "set_font_color a v = upd_cell a (\<lambda>c. c\<lparr>font_color := Some v\<rparr>)"

definition set_number_format :: "addr \<Rightarrow> string \<Rightarrow> sheet \<Rightarrow> sheet" where
  "set_number_format a v = upd_cell a (\<lambda>c. c\<lparr>number_format := Some v\<rparr>)"

text \<open>
  \<^verbatim>\<open>pictures.add(..., name, update=True)\<close>: a picture of that name is replaced in its
  place, otherwise the picture is appended.
\<close>

definition pictures_add :: "picture \<Rightarrow> sheet \<Rightarrow> sheet" where
  "pictures_add p s =
     (if pname p \<in> set (map pname (pictures s))
      then s\<lparr>pictures := map (\<lambda>q. if pname q = pname p then p else q) (pictures s)\<rparr>
      else s\<lparr>pictures := pictures s @ [p]\<rparr>)"

subsection \<open>The market-data client, the named cell and the clock\<close>

text \<open>One daily record of the price frame; the fields are the frame's columns.\<close>

record row =
  Date :: datetime
  Open :: real
  High :: real
  Low :: real
  Close :: real
  Volume :: int

record frame =
  index_name :: "string option"
  rows :: "row list"

text \<open>
  What \<^verbatim>\<open>wb.names["TICKER"].refers_to_range.value\<close> gives: an exception when the name
  is not defined, otherwise the cell's value, \<open>None\<close> for an empty cell. The cell is
  taken to hold text.
\<close>

datatype ticker_read = Name_not_found | Cell_value "string option"

text \<open>
  The environment of one run. \<open>history\<close> is \<^verbatim>\<open>yf.Ticker(t).history(period="1mo")\<close>,
  \<open>info\<close> is \<^verbatim>\<open>yf.Ticker(t).info\<close> with \<open>None\<close> for a fetch that raises, \<open>now\<close> is
  \<^verbatim>\<open>datetime.now()\<close>.
\<close>

record env =
  ticker_range :: ticker_read
  history :: "string \<Rightarrow> frame"
  info :: "string \<Rightarrow> (string \<rightharpoonup> string) option"
  now :: datetime

record alert =
  title :: string
  body :: pystr

record world =
  wbook :: book
  shown :: "alert list"

datatype outcome = Returned | Raised py_error

definition app_alert :: "pystr \<Rightarrow> string \<Rightarrow> world \<Rightarrow> world" where
  "app_alert b t w = w\<lparr>shown := shown w @ [\<lparr>title = t, body = b\<rparr>]\<rparr>"

subsection \<open>The script\<close>

definition nl :: string where
  "nl = [CHR 0x0A]"

definition quote :: string where
  "quote = [CHR 0x27]"

definition check_mark :: string where
  "check_mark = [CHR 0xE2, CHR 0x9C, CHR 0x85]"

definition arrow :: string where
  "arrow = [CHR 0xE2, CHR 0x86, CHR 0x92]"

definition missing_ticker_body :: pystr where
  "missing_ticker_body = [Lit ''Please enter a ticker symbol in the TICKER range!'']"

definition setup_required_body :: pystr where
  "setup_required_body =
     [Lit (''Named range '' @ quote @ ''TICKER'' @ quote @ '' not found!'' @ nl @ nl
           @ ''Please create it first:'' @ nl
           @ ''1. Select a cell with ticker symbol'' @ nl
           @ ''2. Formulas '' @ arrow @ '' Define Name'' @ nl
           @ ''3. Name it '' @ quote @ ''TICKER'' @ quote)]"

definition invalid_ticker_body :: "string \<Rightarrow> pystr" where
  "invalid_ticker_body ticker =
     [Lit (''No data found for ticker: '' @ upper ticker @ nl @ nl
           @ ''Please check the ticker symbol and try again.'')]"

text \<open>Lines 13 to 26: the ticker, or the alert to show before returning.\<close>

definition read_ticker :: "env \<Rightarrow> (pystr \<times> string) + string" where
  "read_ticker e =
     (case ticker_range e of
        Name_not_found \<Rightarrow> Inl (setup_required_body, ''Setup Required'')
      | Cell_value None \<Rightarrow> Inl (missing_ticker_body, ''Missing Ticker'')
      | Cell_value (Some ticker) \<Rightarrow>
          (if ticker = [] then Inl (missing_ticker_body, ''Missing Ticker'') else Inr ticker))"

definition dashboard_name :: string where
  "dashboard_name = ''Stock Dashboard''"

text \<open>Lines 30 to 33: the deletion, with every exception of the two calls ignored.\<close>

definition delete_dashboard :: "book \<Rightarrow> book" where
  "delete_dashboard b =
     (case sheets_getitem b dashboard_name of
        Inl _ \<Rightarrow> b
      | Inr i \<Rightarrow> (case sheet_delete i b of Inl _ \<Rightarrow> b | Inr b' \<Rightarrow> b'))"

text \<open>
  Line 35: \<^verbatim>\<open>wb.sheets[0]\<close> is evaluated first, then the sheet is added behind it; the
  new sheet is at position 1.
\<close>

definition add_dashboard :: "book \<Rightarrow> py_error + book" where
  "add_dashboard b =
     (case sheets_first b of
        Inl err \<Rightarrow> Inl err
      | Inr i \<Rightarrow> sheets_add dashboard_name i b)"

definition info_get :: "(string \<rightharpoonup> string) \<Rightarrow> string \<Rightarrow> string \<Rightarrow> string" where
  "info_get m k d = (case m k of None \<Rightarrow> d | Some v \<Rightarrow> v)"

text \<open>Lines 50 to 54.\<close>

definition company_info :: "env \<Rightarrow> string \<Rightarrow> (string \<rightharpoonup> string)" where
  "company_info e ticker =
     (case info e ticker of
        Some m \<Rightarrow> m
      | None \<Rightarrow> [''longName'' \<mapsto> upper ticker, ''sector'' \<mapsto> ''N/A''])"

text \<open>Statements run one after the other, first to last.\<close>

definition seq :: "('a \<Rightarrow> 'a) list \<Rightarrow> 'a \<Rightarrow> 'a" where
  "seq fs s = fold (\<lambda>f x. f x) fs s"

text \<open>Lines 57 to 60.\<close>

definition write_header :: "string \<Rightarrow> sheet \<Rightarrow> sheet" where
  "write_header ticker =
     seq
      [set_value (ColA, 1)
         (Str [Lit (check_mark @ '' Stock Analysis Dashboard - '' @ upper ticker)]),
       set_font_size (ColA, 1) 18,
       set_font_bold (ColA, 1) True,
       set_font_color (ColA, 1) (0, 102, 204)]"

text \<open>Lines 63 to 72.\<close>

definition write_stock_info :: "string \<Rightarrow> (string \<rightharpoonup> string) \<Rightarrow> sheet \<Rightarrow> sheet" where
  "write_stock_info ticker m =
     seq
      [set_value (ColA, 3) (Str [Lit ''Ticker:'']),
       set_value (ColB, 3) (Str [Lit (upper ticker)]),
       set_font_bold (ColB, 3) True,
       set_font_size (ColB, 3) 14,
       set_value (ColA, 4) (Str [Lit ''Company:'']),
       set_value (ColB, 4) (Str [Lit (info_get m ''longName'' ''N/A'')]),
       set_value (ColA, 5) (Str [Lit ''Sector:'']),
       set_value (ColB, 5) (Str [Lit (info_get m ''sector'' ''N/A'')])]"

text \<open>
  The series is never empty where it is read: \<open>r\<close> is its first row and \<open>rs\<close> the
  rows after it, so \<^verbatim>\<open>iloc[0]\<close> is \<open>r\<close> and \<^verbatim>\<open>iloc[-1]\<close> is \<open>last (r # rs)\<close>.
\<close>

definition current_price :: "row \<Rightarrow> row list \<Rightarrow> real" where
  "current_price r rs = Close (last (r # rs))"

text \<open>Lines 74 to 79.\<close>

definition write_price :: "row \<Rightarrow> row list \<Rightarrow> sheet \<Rightarrow> sheet" where
  "write_price r rs =
     seq
      [set_value (ColA, 6) (Str [Lit ''Current Price:'']),
       set_value (ColB, 6) (Num (Fin (current_price r rs))),
       set_number_format (ColB, 6) ''$#,##0.00'',
       set_font_size (ColB, 6) 12,
       set_font_bold (ColB, 6) True]"

text \<open>Lines 82 and 83.\<close>

definition price_change :: "row \<Rightarrow> row list \<Rightarrow> real" where
  "price_change r rs = Close (last (r # rs)) - Close r"

definition price_change_pct :: "row \<Rightarrow> row list \<Rightarrow> fval" where
  "price_change_pct r rs = np_mul (np_div (price_change r rs) (Close r)) 100"

definition change_text :: "row \<Rightarrow> row list \<Rightarrow> pystr" where
  "change_text r rs =
     [Lit ''$'', Fmt F2 (Fin (price_change r rs)), Lit '' ('',
      Fmt Plus_F2 (price_change_pct r rs), Lit ''%)'']"

text \<open>Lines 85 to 89.\<close>

definition write_change :: "row \<Rightarrow> row list \<Rightarrow> sheet \<Rightarrow> sheet" where
  "write_change r rs =
     seq
      [set_value (ColA, 7) (Str [Lit ''30-Day Change:'']),
       set_value (ColB, 7) (Str (change_text r rs)),
       set_font_color (ColB, 7) (if price_change r rs \<ge> 0 then (0, 128, 0) else (255, 0, 0)),
       set_font_bold (ColB, 7) True]"

text \<open>Lines 91 to 100.\<close>

definition write_window :: "row \<Rightarrow> row list \<Rightarrow> sheet \<Rightarrow> sheet" where
  "write_window r rs =
     seq
      [set_value (ColA, 8) (Str [Lit ''30-Day High:'']),
       set_value (ColB, 8) (Num (series_max (map High (r # rs)))),
       set_number_format (ColB, 8) ''$#,##0.00'',
       set_value (ColA, 9) (Str [Lit ''30-Day Low:'']),
       set_value (ColB, 9) (Num (series_min (map Low (r # rs)))),
       set_number_format (ColB, 9) ''$#,##0.00'',
       set_value (ColA, 10) (Str [Lit ''Avg Volume:'']),
       set_value (ColB, 10) (Str [Fmt Comma_F0 (series_mean (map (\<lambda>x. real_of_int (Volume x)) (r # rs)))])]"

text \<open>
  Lines 108 to 113: the frame written at D4 with its header and its index. The header
  is in row 4, the record number \<open>k\<close> (from 0) in row \<open>5 + k\<close>: the date as text in
  column D, the five columns rounded to two decimals in E to I.
\<close>

definition write_table_header :: "string option \<Rightarrow> sheet \<Rightarrow> sheet" where
  "write_table_header idx =
     seq
      [set_value (ColD, 4) (case idx of None \<Rightarrow> Empty | Some n \<Rightarrow> Str [Lit n]),
       set_value (ColE, 4) (Str [Lit ''Open'']),
       set_value (ColF, 4) (Str [Lit ''High'']),
       set_value (ColG, 4) (Str [Lit ''Low'']),
       set_value (ColH, 4) (Str [Lit ''Close'']),
       set_value (ColI, 4) (Str [Lit ''Volume''])]"

definition write_table_row :: "nat \<Rightarrow> row \<Rightarrow> sheet \<Rightarrow> sheet" where
  "write_table_row n x =
     seq
      [set_value (ColD, n) (Str [Strftime ''%Y-%m-%d'' (Date x)]),
       set_value (ColE, n) (Num (Fin (round2 (Open x)))),
       set_value (ColF, n) (Num (Fin (round2 (High x)))),
       set_value (ColG, n) (Num (Fin (round2 (Low x)))),
       set_value (ColH, n) (Num (Fin (round2 (Close x)))),
       set_value (ColI, n) (Num (Fin (real_of_int (Volume x))))]"

fun write_table_rows :: "nat \<Rightarrow> row list \<Rightarrow> sheet \<Rightarrow> sheet" where
  "write_table_rows n [] s = s"
| "write_table_rows n (x # xs) s = write_table_rows (Suc n) xs (write_table_row n x s)"

definition table_columns :: "column list" where
  "table_columns = [ColD, ColE, ColF, ColG, ColH, ColI]"

text \<open>Lines 103 to 126.\<close>

definition write_table :: "frame \<Rightarrow> sheet \<Rightarrow> sheet" where
  "write_table hist =
     seq
      [set_value (ColD, 3) (Str [Lit ''Historical Data (Last 30 Days)'']),
       set_font_bold (ColD, 3) True,
       set_font_size (ColD, 3) 12,
       write_table_header (index_name hist),
       write_table_rows 5 (rows hist),
       upd_block table_columns 4 (4 + length (rows hist)) (\<lambda>c. c\<lparr>border_weight := Some 2\<rparr>),
       upd_block table_columns 4 4 (\<lambda>c. c\<lparr>fill_color := Some (0, 102, 204)\<rparr>),
       upd_block table_columns 4 4 (\<lambda>c. c\<lparr>font_color := Some (255, 255, 255)\<rparr>),
       upd_block table_columns 4 4 (\<lambda>c. c\<lparr>font_bold := Some True\<rparr>),
       (\<lambda>s. s\<lparr>autofitted := [ColA, ColB, ColC, ColD, ColE, ColF, ColG, ColH, ColI]\<rparr>)]"

text \<open>
  Lines 145 and 146: \<^verbatim>\<open>idxmax\<close> and \<^verbatim>\<open>idxmin\<close> give the date of the first record
  that reaches the extreme close.
\<close>

definition idx_of :: "fval \<Rightarrow> row list \<Rightarrow> datetime option" where
  "idx_of v xs = map_option Date (find (\<lambda>x. Fin (Close x) = v) xs)"

text \<open>Line 154: the colour of each day's volume bar.\<close>

definition bar_colors :: "row list \<Rightarrow> bar_color list" where
  "bar_colors xs = map (\<lambda>x. if Close x \<ge> Open x then Green else Red) xs"

text \<open>Lines 130 to 165.\<close>

definition make_figure :: "string \<Rightarrow> row list \<Rightarrow> figure" where
  "make_figure ticker xs =
     \<lparr>fig_title = upper ticker @ '' - 30 Day Price Chart'',
      price_line = map (\<lambda>x. (Date x, Close x)) xs,
      max_marker = (idx_of (series_max (map Close xs)) xs, series_max (map Close xs)),
      min_marker = (idx_of (series_min (map Close xs)) xs, series_min (map Close xs)),
      volume_bars = zip (map Date xs) (zip (map Volume xs) (bar_colors xs))\<rparr>"

text \<open>Lines 168 to 176.\<close>

definition insert_chart :: "string \<Rightarrow> row list \<Rightarrow> sheet \<Rightarrow> sheet" where
  "insert_chart ticker xs =
     pictures_add \<lparr>pname = ''stock_chart'', anchor = (ColK, 4), pwidth = 600, pheight = 450,
                   pimage = make_figure ticker xs\<rparr>"

text \<open>Lines 180 to 184.\<close>

definition write_timestamp :: "datetime \<Rightarrow> sheet \<Rightarrow> sheet" where
  "write_timestamp t =
     seq
      [set_value (ColA, 12) (Str [Lit ''Last updated: '', Strftime ''%Y-%m-%d %H:%M:%S'' t]),
       set_font_size (ColA, 12) 9,
       set_font_color (ColA, 12) (128, 128, 128)]"

text \<open>Lines 56 to 184: everything written into the new sheet, in the script's order.\<close>

definition write_report ::
  "string \<Rightarrow> (string \<rightharpoonup> string) \<Rightarrow> frame \<Rightarrow> row \<Rightarrow> row list \<Rightarrow> datetime \<Rightarrow> sheet \<Rightarrow> sheet" where
  "write_report ticker m hist r rs t =
     seq
      [write_header ticker,
       write_stock_info ticker m,
       write_price r rs,
       write_change r rs,
       write_window r rs,
       write_table hist,
       insert_chart ticker (r # rs),
       write_timestamp t]"

definition success_body :: "string \<Rightarrow> row \<Rightarrow> row list \<Rightarrow> pystr" where
  "success_body ticker r rs =
     [Lit (check_mark @ '' Dashboard created successfully for '' @ upper ticker @ ''!'' @ nl @ nl
           @ ''Current Price: $''),
      Fmt F2 (Fin (current_price r rs)),
      Lit (nl @ ''30-Day Change: '')] @ change_text r rs"

text \<open>Lines 29 to 36: delete, add, activate. The new sheet is at position 1.\<close>

definition recreate_dashboard :: "book \<Rightarrow> py_error + book" where
  "recreate_dashboard b =
     (case add_dashboard (delete_dashboard b) of
        Inl err \<Rightarrow> Inl err
      | Inr b2 \<Rightarrow> Inr (sheet_activate 1 b2))"

text \<open>
  Lines 38 to 190, run with the workbook \<open>b3\<close> that lines 29 to 36 leave. Every statement
  goes through the handle of the new sheet, which stays at position 1.
\<close>

definition fetch_and_report :: "env \<Rightarrow> string \<Rightarrow> world \<Rightarrow> book \<Rightarrow> world \<times> outcome" where
  "fetch_and_report e ticker w b3 =
     (let hist = history e ticker
      in case rows hist of
           [] \<Rightarrow>
             (let w1 = app_alert (invalid_ticker_body ticker) ''Invalid Ticker''
                         (w\<lparr>wbook := b3\<rparr>)
              in case sheet_delete 1 b3 of
                   Inl err \<Rightarrow> (w1, Raised err)
                 | Inr b4 \<Rightarrow> (w1\<lparr>wbook := b4\<rparr>, Returned))
         | r # rs \<Rightarrow>
             (let m = company_info e ticker;
                  b4 = on_sheet 1 (write_report ticker m hist r rs (now e)) b3
              in (app_alert (success_body ticker r rs) ''Success'' (w\<lparr>wbook := b4\<rparr>),
                  Returned)))"

text \<open>
  The function \<^verbatim>\<open>main\<close>. When line 35 raises, the workbook is left as the deletion
  attempt left it.
\<close>

definition main :: "env \<Rightarrow> world \<Rightarrow> world \<times> outcome" where
  "main e w =
     (case read_ticker e of
        Inl (b, t) \<Rightarrow> (app_alert b t w, Returned)
      | Inr ticker \<Rightarrow>
          (case recreate_dashboard (wbook w) of
             Inl err \<Rightarrow> (w\<lparr>wbook := delete_dashboard (wbook w)\<rparr>, Raised err)
           | Inr b3 \<Rightarrow> fetch_and_report e ticker w b3))"

subsection \<open>Notions used in the statements\<close>

definition is_dashboard :: "sheet \<Rightarrow> bool" where
  "is_dashboard s = same_name (sname s) dashboard_name"

text \<open>The host keeps the sheet names of a workbook distinct, case disregarded.\<close>

definition valid_book :: "book \<Rightarrow> bool" where
  "valid_book b = distinct (map (\<lambda>s. lower (sname s)) (sheets b))"

text \<open>The workbook has a sheet that is not the report sheet.\<close>

definition has_other_sheet :: "book \<Rightarrow> bool" where
  "has_other_sheet b = list_ex (\<lambda>s. \<not> is_dashboard s) (sheets b)"

text \<open>The sheets that are not the report sheet, in tab order.\<close>

definition other_sheets :: "book \<Rightarrow> sheet list" where
  "other_sheets b = filter (\<lambda>s. \<not> is_dashboard s) (sheets b)"

text \<open>The report sheet of a workbook, if it has one.\<close>

definition dashboard_sheet :: "world \<Rightarrow> sheet option" where
  "dashboard_sheet w = find is_dashboard (sheets (wbook w))"

text \<open>The report sheet a run writes: the statements of lines 56 to 184 on a blank sheet.\<close>

definition report :: "env \<Rightarrow> string \<Rightarrow> row \<Rightarrow> row list \<Rightarrow> sheet" where
  "report e t r rs =
     write_report t (company_info e t) (history e t) r rs (now e) (blank_sheet dashboard_name)"

text \<open>A cell of the report sheet of a workbook.\<close>

definition report_cell :: "world \<Rightarrow> addr \<Rightarrow> cell option" where
  "report_cell w a = map_option (\<lambda>sh. cells sh a) (dashboard_sheet w)"

text \<open>Two sheets that agree in everything but the cells at the addresses in \<open>A\<close>.\<close>

definition agree_off :: "addr set \<Rightarrow> sheet \<Rightarrow> sheet \<Rightarrow> bool" where
  "agree_off A s1 s2 \<longleftrightarrow>
     sname s1 = sname s2 \<and> autofitted s1 = autofitted s2 \<and> pictures s1 = pictures s2
     \<and> (\<forall>a. a \<notin> A \<longrightarrow> cells s1 a = cells s2 a)"

subsection \<open>Sample inputs\<close>

text \<open>
  Three daily records, a workbook with one ordinary sheet, one that also has a report
  sheet from an earlier run, and one whose only sheet is the report sheet.
\<close>

definition demo_rows :: "row list" where
  "demo_rows =
     [\<lparr>Date = 1, Open = 100, High = 110, Low = 95, Close = 100, Volume = 1000\<rparr>,
      \<lparr>Date = 2, Open = 100, High = 120, Low = 90, Close = 110, Volume = 3000\<rparr>,
      \<lparr>Date = 3, Open = 110, High = 112, Low = 104, Close = 105, Volume = 2000\<rparr>]"

text \<open>A series whose first close is 0, as a delisted or mis-quoted symbol can give.\<close>

definition demo_rows_zero :: "row list" where
  "demo_rows_zero =
     [\<lparr>Date = 1, Open = 0, High = 0, Low = 0, Close = 0, Volume = 0\<rparr>,
      \<lparr>Date = 2, Open = 4, High = 6, Low = 3, Close = 5, Volume = 700\<rparr>]"

definition demo_env :: env where
  "demo_env =
     \<lparr>ticker_range = Cell_value (Some ''aapl''),
      history = (\<lambda>_. \<lparr>index_name = Some ''Date'', rows = demo_rows\<rparr>),
      info = (\<lambda>_. None),
      now = 1000\<rparr>"

text \<open>The same run with the zero-first-close series, and with a one-day series.\<close>

definition demo_env_zero :: env where
  "demo_env_zero = demo_env\<lparr>history := (\<lambda>_. \<lparr>index_name = Some ''Date'', rows = demo_rows_zero\<rparr>)\<rparr>"

definition demo_env_one_day :: env where
  "demo_env_one_day =
     demo_env\<lparr>history := (\<lambda>_. \<lparr>index_name = Some ''Date'', rows = [hd demo_rows]\<rparr>)\<rparr>"

text \<open>The same run with a provider that has no rows for the symbol, and one hour later.\<close>

definition demo_env_no_data :: env where
  "demo_env_no_data = demo_env\<lparr>history := (\<lambda>_. \<lparr>index_name = Some ''Date'', rows = []\<rparr>)\<rparr>"

definition demo_env_later :: env where
  "demo_env_later = demo_env\<lparr>now := 4600\<rparr>"

definition demo_world :: world where
  "demo_world =
     \<lparr>wbook = \<lparr>sheets = [blank_sheet ''Sheet1''], active = Some ''Sheet1''\<rparr>, shown = []\<rparr>"

definition old_report :: sheet where
  "old_report = set_value (ColA, 1) (Str [Lit ''an earlier report'']) (blank_sheet ''Stock Dashboard'')"

definition demo_world_with_report :: world where
  "demo_world_with_report =
     \<lparr>wbook = \<lparr>sheets = [blank_sheet ''Sheet1'', old_report], active = Some ''Sheet1''\<rparr>,
      shown = []\<rparr>"


text \<open>The sample workbook after one run, and after a second run an hour later.\<close>

definition demo_after_first_run :: world where
  "demo_after_first_run = fst (main demo_env demo_world)"

definition demo_after_second_run :: world where
  "demo_after_second_run = fst (main demo_env_later demo_after_first_run)"

section \<open>Properties\<close>

subsection \<open>Auxiliary facts\<close>


lemma sheets_index_None: "sheets_index n ss = None \<longleftrightarrow> (\<forall>s \<in> set ss. \<not> same_name (sname s) n)"
  by (induction ss) auto

lemma sheets_index_Some_filter:
  "sheets_index n ss = Some i \<Longrightarrow> distinct (map (\<lambda>s. lower (sname s)) ss)
   \<Longrightarrow> i < length ss \<and> same_name (sname (ss ! i)) n
       \<and> take i ss @ drop (Suc i) ss = filter (\<lambda>s. \<not> same_name (sname s) n) ss"
proof (induction ss arbitrary: i)
  case Nil
  then show ?case by simp
next
  case (Cons s ss)
  show ?case
  proof (cases "same_name (sname s) n")
    case True
    then have i: "i = 0" using Cons.prems(1) by simp
    have "\<forall>x \<in> set ss. \<not> same_name (sname x) n"
    proof
      fix x assume "x \<in> set ss"
      then have "lower (sname x) \<in> (\<lambda>s. lower (sname s)) ` set ss" by (rule imageI)
      with Cons.prems(2) True show "\<not> same_name (sname x) n"
        by (auto simp: same_name_def)
    qed
    then have "filter (\<lambda>s. \<not> same_name (sname s) n) ss = ss"
      by (simp add: filter_id_conv)
    with True i show ?thesis by simp
  next
    case False
    then obtain j where j: "sheets_index n ss = Some j" "i = Suc j"
      using Cons.prems(1) by auto
    from Cons.IH[OF j(1)] Cons.prems(2) False j(2) show ?thesis by simp
  qed
qed


lemma other_sheets_nonempty: "has_other_sheet b \<Longrightarrow> other_sheets b \<noteq> []"
  by (auto simp: has_other_sheet_def other_sheets_def list_ex_iff filter_empty_conv)

lemma delete_dashboard_sheets:
  assumes "valid_book b" and "has_other_sheet b"
  shows "sheets (delete_dashboard b) = other_sheets b"
proof (cases "sheets_index dashboard_name (sheets b)")
  case None
  then have "\<forall>s \<in> set (sheets b). \<not> is_dashboard s"
    by (simp add: sheets_index_None is_dashboard_def)
  then have "other_sheets b = sheets b"
    by (simp add: other_sheets_def filter_id_conv)
  with None show ?thesis
    by (simp add: delete_dashboard_def sheets_getitem_def)
next
  case (Some i)
  from sheets_index_Some_filter[OF Some] assms(1)
  have i: "i < length (sheets b)" "is_dashboard (sheets b ! i)"
    and f: "take i (sheets b) @ drop (Suc i) (sheets b) = other_sheets b"
    by (simp_all add: valid_book_def is_dashboard_def other_sheets_def)
  have "other_sheets b \<noteq> []" using assms(2) by (rule other_sheets_nonempty)
  with f have "length (take i (sheets b) @ drop (Suc i) (sheets b)) \<noteq> 0" by simp
  with i(1) have "\<not> length (sheets b) \<le> 1" by auto
  with Some i(1) f show ?thesis
    by (simp add: delete_dashboard_def sheets_getitem_def sheet_delete_def)
qed

lemma other_sheets_no_dashboard: "lower dashboard_name \<notin> set (map (\<lambda>s. lower (sname s)) (other_sheets b))"
  by (auto simp: other_sheets_def is_dashboard_def same_name_def)

lemma recreate_dashboard_ok:
  assumes "valid_book b" and "has_other_sheet b"
  shows "recreate_dashboard b =
           Inr \<lparr>sheets = hd (other_sheets b) # blank_sheet dashboard_name # tl (other_sheets b),
                active = Some dashboard_name\<rparr>"
proof -
  let ?S = "other_sheets b"
  have S: "sheets (delete_dashboard b) = ?S" using assms by (rule delete_dashboard_sheets)
  have ne: "?S \<noteq> []" using assms(2) by (rule other_sheets_nonempty)
  then obtain s0 ss where S0: "?S = s0 # ss" by (cases ?S) auto
  have nd: "lower dashboard_name \<notin> set (map (\<lambda>s. lower (sname s)) ?S)"
    by (rule other_sheets_no_dashboard)
  show ?thesis
    using S nd unfolding S0
    by (simp add: recreate_dashboard_def add_dashboard_def sheets_first_def sheets_add_def
        sheet_activate_def blank_sheet_def)
qed


lemma seq_Nil [simp]: "seq [] s = s"
  by (simp add: seq_def)

lemma seq_Cons [simp]: "seq (f # fs) s = seq fs (f s)"
  by (simp add: seq_def)

lemma upd_cell_fields [simp]:
  "sname (upd_cell a f s) = sname s"
  "pictures (upd_cell a f s) = pictures s"
  "autofitted (upd_cell a f s) = autofitted s"
  "cells (upd_cell a f s) a' = (if a' = a then f (cells s a) else cells s a')"
  by (simp_all add: upd_cell_def)

lemma upd_block_fields [simp]:
  "sname (upd_block cs lo hi f s) = sname s"
  "pictures (upd_block cs lo hi f s) = pictures s"
  "autofitted (upd_block cs lo hi f s) = autofitted s"
  "cells (upd_block cs lo hi f s) (c, r) =
     (if c \<in> set cs \<and> lo \<le> r \<and> r \<le> hi then f (cells s (c, r)) else cells s (c, r))"
  by (simp_all add: upd_block_def)

lemma pictures_add_fields [simp]:
  "sname (pictures_add p s) = sname s"
  "cells (pictures_add p s) = cells s"
  "autofitted (pictures_add p s) = autofitted s"
  by (simp_all add: pictures_add_def)

lemmas set_defs = set_value_def set_font_size_def set_font_bold_def set_font_color_def
  set_number_format_def

lemma write_table_rows_fields [simp]:
  "sname (write_table_rows n xs s) = sname s"
  "pictures (write_table_rows n xs s) = pictures s"
  "autofitted (write_table_rows n xs s) = autofitted s"
  by (induction n xs s rule: write_table_rows.induct) (simp_all add: write_table_row_def set_defs)

lemma write_table_rows_cells_outside:
  "c \<notin> set table_columns \<or> k < n \<Longrightarrow> cells (write_table_rows n xs s) (c, k) = cells s (c, k)"
  by (induction n xs s rule: write_table_rows.induct)
     (auto simp: write_table_row_def set_defs table_columns_def)

lemmas report_defs = write_report_def write_header_def write_stock_info_def write_price_def
  write_change_def write_window_def write_table_def write_table_header_def insert_chart_def
  write_timestamp_def

lemma sname_write_report [simp]: "sname (write_report t m h r rs n s) = sname s"
  by (simp add: report_defs set_defs)

lemma main_report:
  assumes "read_ticker e = Inr t" and "valid_book (wbook w)" and "has_other_sheet (wbook w)"
    and "rows (history e t) = r # rs"
  shows "main e w =
           (\<lparr>wbook = \<lparr>sheets = hd (other_sheets (wbook w)) # report e t r rs
                                 # tl (other_sheets (wbook w)),
                       active = Some dashboard_name\<rparr>,
              shown = shown w @ [\<lparr>title = ''Success'', body = success_body t r rs\<rparr>]\<rparr>,
            Returned)"
  using assms(1,4) recreate_dashboard_ok[OF assms(2,3)]
  by (simp add: main_def fetch_and_report_def on_sheet_def app_alert_def report_def)

lemma main_no_data:
  assumes "read_ticker e = Inr t" and "valid_book (wbook w)" and "has_other_sheet (wbook w)"
    and "rows (history e t) = []"
  shows "main e w =
           (\<lparr>wbook = \<lparr>sheets = other_sheets (wbook w), active = None\<rparr>,
              shown = shown w @ [\<lparr>title = ''Invalid Ticker'', body = invalid_ticker_body t\<rparr>]\<rparr>,
            Returned)"
proof -
  have "other_sheets (wbook w) \<noteq> []" using assms(3) by (rule other_sheets_nonempty)
  then obtain s0 ss where S0: "other_sheets (wbook w) = s0 # ss"
    by (cases "other_sheets (wbook w)") auto
  show ?thesis
    using assms(1,4) recreate_dashboard_ok[OF assms(2,3)] unfolding S0
    by (simp add: main_def fetch_and_report_def app_alert_def sheet_delete_def blank_sheet_def)
qed

lemma hd_other_sheets: "has_other_sheet b \<Longrightarrow> \<not> is_dashboard (hd (other_sheets b))"
proof -
  assume "has_other_sheet b"
  then have "other_sheets b \<noteq> []" by (rule other_sheets_nonempty)
  then have "hd (other_sheets b) \<in> set (other_sheets b)" by simp
  then show ?thesis by (simp add: other_sheets_def)
qed

lemma is_dashboard_report: "is_dashboard (report e t r rs)"
  by (simp add: is_dashboard_def report_def blank_sheet_def same_name_def)

lemma dashboard_sheet_main:
  assumes "read_ticker e = Inr t" and "valid_book (wbook w)" and "has_other_sheet (wbook w)"
    and "rows (history e t) = r # rs"
  shows "dashboard_sheet (fst (main e w)) = Some (report e t r rs)"
  using hd_other_sheets[OF assms(3)] is_dashboard_report[of e t r rs]
  by (simp add: main_report[OF assms] dashboard_sheet_def)


lemma foldl_max_Max: "foldl max x xs = Max (set (x # xs))" for x :: real
proof (induction xs arbitrary: x)
  case Nil
  then show ?case by simp
next
  case (Cons a xs)
  have "foldl max x (a # xs) = Max (set (max x a # xs))" using Cons.IH by simp
  also have "\<dots> = Max (set (x # a # xs))"
    by (cases "xs = []") (simp_all add: max.assoc)
  finally show ?case .
qed

lemma foldl_min_Min: "foldl min x xs = Min (set (x # xs))" for x :: real
proof (induction xs arbitrary: x)
  case Nil
  then show ?case by simp
next
  case (Cons a xs)
  have "foldl min x (a # xs) = Min (set (min x a # xs))" using Cons.IH by simp
  also have "\<dots> = Min (set (x # a # xs))"
    by (cases "xs = []") (simp_all add: min.assoc)
  finally show ?case .
qed

lemma series_max_Max: "series_max (x # xs) = Fin (Max (set (x # xs)))"
  by (simp only: series_max_def list.case foldl_max_Max)

lemma series_min_Min: "series_min (x # xs) = Fin (Min (set (x # xs)))"
  by (simp only: series_min_def list.case foldl_min_Min)

lemma report_B7:
  "cells (report e t r rs) (ColB, 7) =
     blank_cell\<lparr>cvalue := Str (change_text r rs),
       font_color := Some (if price_change r rs \<ge> 0 then (0, 128, 0) else (255, 0, 0)),
       font_bold := Some True\<rparr>"
  by (simp add: report_def report_defs set_defs write_table_rows_cells_outside table_columns_def
      blank_sheet_def)

lemma report_B8_B9:
  "cvalue (cells (report e t r rs) (ColB, 8)) = Num (series_max (map High (r # rs)))"
  "cvalue (cells (report e t r rs) (ColB, 9)) = Num (series_min (map Low (r # rs)))"
  by (simp_all add: report_def report_defs set_defs write_table_rows_cells_outside
      table_columns_def blank_sheet_def)

lemma report_B4_B5:
  "cvalue (cells (report e t r rs) (ColB, 4)) = Str [Lit (info_get (company_info e t) ''longName'' ''N/A'')]"
  "cvalue (cells (report e t r rs) (ColB, 5)) = Str [Lit (info_get (company_info e t) ''sector'' ''N/A'')]"
  by (simp_all add: report_def report_defs set_defs write_table_rows_cells_outside
      table_columns_def blank_sheet_def)

lemma report_pictures:
  "pictures (report e t r rs) =
     [\<lparr>pname = ''stock_chart'', anchor = (ColK, 4), pwidth = 600, pheight = 450,
       pimage = make_figure t (r # rs)\<rparr>]"
  by (simp add: report_def report_defs set_defs blank_sheet_def pictures_add_def)

subsection \<open>Input resolution\<close>

text \<open>
  C4. If the named range \<open>TICKER\<close> is undefined or the ticker cell is empty (no value, or
  the empty text), the run shows one modal message and returns before it touches a sheet:
  the workbook after the run is the workbook before it, so no sheet is deleted, created or
  modified. The message is "Setup Required" for the missing name and "Missing Ticker" for
  the empty cell.
\<close>

theorem missing_ticker_aborts_unchanged:
  assumes "ticker_range e = Name_not_found \<or> ticker_range e = Cell_value None
           \<or> ticker_range e = Cell_value (Some [])"
  shows "snd (main e w) = Returned
         \<and> wbook (fst (main e w)) = wbook w
         \<and> (\<exists>a. shown (fst (main e w)) = shown w @ [a]
                \<and> title a = (if ticker_range e = Name_not_found then ''Setup Required''
                              else ''Missing Ticker''))"
  using assms by (auto simp: main_def read_ticker_def app_alert_def)

theorem missing_ticker_aborts_unchanged_witness:
  "ticker_range (demo_env\<lparr>ticker_range := Cell_value None\<rparr>) = Cell_value None
   \<and> snd (main (demo_env\<lparr>ticker_range := Cell_value None\<rparr>) demo_world_with_report) = Returned
   \<and> wbook (fst (main (demo_env\<lparr>ticker_range := Cell_value None\<rparr>) demo_world_with_report))
       = wbook demo_world_with_report"
  using missing_ticker_aborts_unchanged
    [of "demo_env\<lparr>ticker_range := Cell_value None\<rparr>" demo_world_with_report]
  by simp

text \<open>Facts about the sample inputs.\<close>

lemma demo_read_ticker: "read_ticker demo_env = Inr ''aapl''"
  by (simp add: read_ticker_def demo_env_def)

lemma lower_sheet1: "lower ''Sheet1'' \<noteq> lower dashboard_name"
  by (simp add: lower_def lower_char_def dashboard_name_def)

lemma demo_world_ok: "valid_book (wbook demo_world)" "has_other_sheet (wbook demo_world)"
  using lower_sheet1
  by (simp_all add: demo_world_def valid_book_def has_other_sheet_def is_dashboard_def
      same_name_def blank_sheet_def)

lemma demo_world_with_report_ok:
  "valid_book (wbook demo_world_with_report)" "has_other_sheet (wbook demo_world_with_report)"
  using lower_sheet1
  by (simp_all add: demo_world_with_report_def old_report_def set_value_def valid_book_def
      has_other_sheet_def is_dashboard_def same_name_def blank_sheet_def dashboard_name_def)

lemma demo_history: "rows (history demo_env t) = hd demo_rows # tl demo_rows"
  by (simp add: demo_env_def demo_rows_def)

lemma demo_zero_read_ticker: "read_ticker demo_env_zero = Inr ''aapl''"
  by (simp add: read_ticker_def demo_env_zero_def demo_env_def)

lemma demo_zero_history: "rows (history demo_env_zero t) = hd demo_rows_zero # tl demo_rows_zero"
  by (simp add: demo_env_zero_def demo_rows_zero_def)

lemma demo_one_day_read_ticker: "read_ticker demo_env_one_day = Inr ''aapl''"
  by (simp add: read_ticker_def demo_env_one_day_def demo_env_def)

lemma demo_one_day_history: "rows (history demo_env_one_day t) = hd demo_rows # []"
  by (simp add: demo_env_one_day_def)

subsection \<open>Metrics\<close>

text \<open>
  C3. For every run that passes input validation and creates the report sheet, with a
  non-empty fetched series whose first close is not zero: the text written to B7 carries
  the price change, last close minus first close, and the percent change, (last close
  minus first close) / first close * 100. (Float arithmetic is idealised as exact.)
\<close>

theorem change_and_percent_written:
  assumes "read_ticker e = Inr t" and "valid_book (wbook w)" and "has_other_sheet (wbook w)"
    and "rows (history e t) = r # rs" and "Close r \<noteq> 0"
  shows "\<exists>sh. dashboard_sheet (fst (main e w)) = Some sh
           \<and> cvalue (cells sh (ColB, 7)) =
               Str [Lit ''$'', Fmt F2 (Fin (Close (last (r # rs)) - Close r)), Lit '' ('',
                    Fmt Plus_F2 (Fin ((Close (last (r # rs)) - Close r) / Close r * 100)),
                    Lit ''%)'']"
  using assms(5)
  by (simp add: dashboard_sheet_main[OF assms(1-4)] report_B7 blank_cell_def change_text_def
      price_change_pct_def price_change_def np_div_def np_mul_def)

theorem change_and_percent_written_witness:
  "read_ticker demo_env = Inr ''aapl'' \<and> valid_book (wbook demo_world)
   \<and> has_other_sheet (wbook demo_world)
   \<and> rows (history demo_env ''aapl'') = hd demo_rows # tl demo_rows
   \<and> Close (hd demo_rows) \<noteq> 0
   \<and> (\<exists>sh. dashboard_sheet (fst (main demo_env demo_world)) = Some sh
        \<and> cvalue (cells sh (ColB, 7)) =
            Str [Lit ''$'', Fmt F2 (Fin 5), Lit '' ('', Fmt Plus_F2 (Fin 5), Lit ''%)''])"
proof -
  have nz: "Close (hd demo_rows) \<noteq> 0" by (simp add: demo_rows_def)
  show ?thesis
    using change_and_percent_written
      [OF demo_read_ticker demo_world_ok demo_history nz]
      demo_read_ticker demo_world_ok demo_history[of "''aapl''"] nz
    by (simp add: demo_rows_def)
qed

text \<open>
  C5. For every such run with a non-empty series, B8 holds the maximum of the High column
  and B9 the minimum of the Low column, both over exactly the fetched rows.
\<close>

theorem window_high_low_written:
  assumes "read_ticker e = Inr t" and "valid_book (wbook w)" and "has_other_sheet (wbook w)"
    and "rows (history e t) = r # rs"
  shows "\<exists>sh. dashboard_sheet (fst (main e w)) = Some sh
           \<and> cvalue (cells sh (ColB, 8)) = Num (Fin (Max (High ` set (r # rs))))
           \<and> cvalue (cells sh (ColB, 9)) = Num (Fin (Min (Low ` set (r # rs))))"
proof -
  have "series_max (map High (r # rs)) = Fin (Max (High ` set (r # rs)))"
    using series_max_Max[of "High r" "map High rs"] by simp
  moreover have "series_min (map Low (r # rs)) = Fin (Min (Low ` set (r # rs)))"
    using series_min_Min[of "Low r" "map Low rs"] by simp
  ultimately show ?thesis
    by (simp add: dashboard_sheet_main[OF assms] report_B8_B9 del: list.map set_simps)
qed

theorem window_high_low_written_witness:
  "read_ticker demo_env = Inr ''aapl'' \<and> valid_book (wbook demo_world)
   \<and> has_other_sheet (wbook demo_world)
   \<and> rows (history demo_env ''aapl'') = hd demo_rows # tl demo_rows
   \<and> (\<exists>sh. dashboard_sheet (fst (main demo_env demo_world)) = Some sh
        \<and> cvalue (cells sh (ColB, 8)) = Num (Fin 120)
        \<and> cvalue (cells sh (ColB, 9)) = Num (Fin 90))"
  using window_high_low_written [OF demo_read_ticker demo_world_ok demo_history]
    demo_read_ticker demo_world_ok demo_history[of "''aapl''"]
  by (simp add: demo_rows_def)

text \<open>
  C6. The font colour of the change cell B7 is the positive colour (0, 128, 0) exactly
  when the price change is at least 0, and the negative colour (255, 0, 0) exactly when it
  is below 0; a change of exactly 0 is styled positive.
\<close>

theorem change_cell_colour:
  assumes "read_ticker e = Inr t" and "valid_book (wbook w)" and "has_other_sheet (wbook w)"
    and "rows (history e t) = r # rs"
  shows "\<exists>sh. dashboard_sheet (fst (main e w)) = Some sh
           \<and> (font_color (cells sh (ColB, 7)) = Some (0, 128, 0)
                \<longleftrightarrow> Close (last (r # rs)) - Close r \<ge> 0)
           \<and> (font_color (cells sh (ColB, 7)) = Some (255, 0, 0)
                \<longleftrightarrow> Close (last (r # rs)) - Close r < 0)"
  by (simp add: dashboard_sheet_main[OF assms] report_B7 blank_cell_def price_change_def)

theorem change_cell_colour_witness:
  "read_ticker demo_env_one_day = Inr ''aapl'' \<and> valid_book (wbook demo_world)
   \<and> has_other_sheet (wbook demo_world)
   \<and> rows (history demo_env_one_day ''aapl'') = hd demo_rows # []
   \<and> Close (last (hd demo_rows # [])) - Close (hd demo_rows) = 0
   \<and> (\<exists>sh. dashboard_sheet (fst (main demo_env_one_day demo_world)) = Some sh
        \<and> font_color (cells sh (ColB, 7)) = Some (0, 128, 0))"
  using change_cell_colour [OF demo_one_day_read_ticker demo_world_ok demo_one_day_history]
    demo_one_day_read_ticker demo_world_ok demo_one_day_history[of "''aapl''"]
  by auto

text \<open>
  C7. Nothing checks the first close before the division. Every run that reaches the report
  with a non-empty series completes, whatever the first close is, and writes the percent
  change computed by dividing by the first close; when the first close is 0 the division
  takes its zero-divisor branch and the value written is not a finite number (numpy gives
  nan or an infinity there and does not raise).
\<close>

theorem percent_division_unguarded:
  assumes "read_ticker e = Inr t" and "valid_book (wbook w)" and "has_other_sheet (wbook w)"
    and "rows (history e t) = r # rs"
  shows "snd (main e w) = Returned
         \<and> (\<exists>sh. dashboard_sheet (fst (main e w)) = Some sh
              \<and> cvalue (cells sh (ColB, 7)) =
                  Str [Lit ''$'', Fmt F2 (Fin (price_change r rs)), Lit '' ('',
                       Fmt Plus_F2 (np_mul (np_div (price_change r rs) (Close r)) 100),
                       Lit ''%)''])
         \<and> (Close r = 0 \<longrightarrow> \<not> is_finite (np_mul (np_div (price_change r rs) (Close r)) 100))"
proof -
  have returned: "snd (main e w) = Returned"
    by (simp add: main_report[OF assms])
  have sheet: "dashboard_sheet (fst (main e w)) = Some (report e t r rs)"
    by (rule dashboard_sheet_main[OF assms])
  have written: "cvalue (cells (report e t r rs) (ColB, 7)) =
      Str [Lit ''$'', Fmt F2 (Fin (price_change r rs)), Lit '' ('',
           Fmt Plus_F2 (np_mul (np_div (price_change r rs) (Close r)) 100), Lit ''%)'']"
    by (simp add: report_B7 blank_cell_def change_text_def price_change_pct_def)
  have zero: "Close r = 0 \<longrightarrow> \<not> is_finite (np_mul (np_div (price_change r rs) (Close r)) 100)"
    by (simp add: np_div_def np_mul_def is_finite_def)
  from returned sheet written zero show ?thesis by blast
qed

theorem percent_division_unguarded_witness:
  "read_ticker demo_env_zero = Inr ''aapl'' \<and> valid_book (wbook demo_world)
   \<and> has_other_sheet (wbook demo_world)
   \<and> rows (history demo_env_zero ''aapl'') = hd demo_rows_zero # tl demo_rows_zero
   \<and> Close (hd demo_rows_zero) = 0
   \<and> snd (main demo_env_zero demo_world) = Returned
   \<and> (\<exists>sh. dashboard_sheet (fst (main demo_env_zero demo_world)) = Some sh
        \<and> cvalue (cells sh (ColB, 7)) =
            Str [Lit ''$'', Fmt F2 (Fin 5), Lit '' ('', Fmt Plus_F2 PInf, Lit ''%)''])
   \<and> \<not> is_finite (np_mul (np_div 5 0) 100)"
proof -
  have z: "Close (hd demo_rows_zero) = 0" by (simp add: demo_rows_zero_def)
  have pc: "price_change (hd demo_rows_zero) (tl demo_rows_zero) = 5"
    by (simp add: price_change_def demo_rows_zero_def)
  show ?thesis
    using percent_division_unguarded
      [OF demo_zero_read_ticker demo_world_ok demo_zero_history]
      demo_zero_read_ticker demo_world_ok demo_zero_history[of "''aapl''"] z pc
    by (simp add: np_div_def np_mul_def)
qed

subsection \<open>Chart\<close>

text \<open>
  C10. The report sheet carries one picture, the chart; its volume panel has one bar per
  fetched day, in order, with that day's date and volume, coloured green exactly when the
  day's close is at least its open and red exactly when the close is below the open. A day
  with close equal to open is green.
\<close>

theorem volume_bar_colours:
  assumes "read_ticker e = Inr t" and "valid_book (wbook w)" and "has_other_sheet (wbook w)"
    and "rows (history e t) = r # rs"
  shows "\<exists>sh p. dashboard_sheet (fst (main e w)) = Some sh \<and> pictures sh = [p]
           \<and> length (volume_bars (pimage p)) = length (r # rs)
           \<and> (\<forall>i < length (r # rs).
                 fst (volume_bars (pimage p) ! i) = Date ((r # rs) ! i)
                 \<and> fst (snd (volume_bars (pimage p) ! i)) = Volume ((r # rs) ! i)
                 \<and> (snd (snd (volume_bars (pimage p) ! i)) = Green
                      \<longleftrightarrow> Close ((r # rs) ! i) \<ge> Open ((r # rs) ! i))
                 \<and> (snd (snd (volume_bars (pimage p) ! i)) = Red
                      \<longleftrightarrow> Close ((r # rs) ! i) < Open ((r # rs) ! i)))"
proof -
  let ?p = "\<lparr>pname = ''stock_chart'', anchor = (ColK, 4), pwidth = 600, pheight = 450,
             pimage = make_figure t (r # rs)\<rparr>"
  have sheet: "dashboard_sheet (fst (main e w)) = Some (report e t r rs)"
    by (rule dashboard_sheet_main[OF assms])
  have pics: "pictures (report e t r rs) = [?p]"
    by (rule report_pictures)
  have len: "length (volume_bars (pimage ?p)) = length (r # rs)"
    by (simp add: make_figure_def bar_colors_def)
  have bars: "\<forall>i < length (r # rs).
      fst (volume_bars (pimage ?p) ! i) = Date ((r # rs) ! i)
      \<and> fst (snd (volume_bars (pimage ?p) ! i)) = Volume ((r # rs) ! i)
      \<and> (snd (snd (volume_bars (pimage ?p) ! i)) = Green
           \<longleftrightarrow> Close ((r # rs) ! i) \<ge> Open ((r # rs) ! i))
      \<and> (snd (snd (volume_bars (pimage ?p) ! i)) = Red
           \<longleftrightarrow> Close ((r # rs) ! i) < Open ((r # rs) ! i))"
  proof (intro allI impI)
    fix i assume i: "i < length (r # rs)"
    have "volume_bars (pimage ?p) ! i =
            (Date ((r # rs) ! i), Volume ((r # rs) ! i),
             if Close ((r # rs) ! i) \<ge> Open ((r # rs) ! i) then Green else Red)"
      using i unfolding make_figure_def bar_colors_def
      by (simp del: list.map nth_Cons_Suc add: nth_zip)
    then show "fst (volume_bars (pimage ?p) ! i) = Date ((r # rs) ! i)
      \<and> fst (snd (volume_bars (pimage ?p) ! i)) = Volume ((r # rs) ! i)
      \<and> (snd (snd (volume_bars (pimage ?p) ! i)) = Green
           \<longleftrightarrow> Close ((r # rs) ! i) \<ge> Open ((r # rs) ! i))
      \<and> (snd (snd (volume_bars (pimage ?p) ! i)) = Red
           \<longleftrightarrow> Close ((r # rs) ! i) < Open ((r # rs) ! i))"
      by simp
  qed
  from sheet pics len bars show ?thesis by blast
qed

theorem volume_bar_colours_witness:
  "read_ticker demo_env = Inr ''aapl'' \<and> valid_book (wbook demo_world)
   \<and> has_other_sheet (wbook demo_world)
   \<and> rows (history demo_env ''aapl'') = hd demo_rows # tl demo_rows
   \<and> (2::nat) < length (hd demo_rows # tl demo_rows)
   \<and> Close ((hd demo_rows # tl demo_rows) ! 0) = Open ((hd demo_rows # tl demo_rows) ! 0)
   \<and> Close ((hd demo_rows # tl demo_rows) ! 2) < Open ((hd demo_rows # tl demo_rows) ! 2)
   \<and> (\<exists>sh p. dashboard_sheet (fst (main demo_env demo_world)) = Some sh \<and> pictures sh = [p]
        \<and> snd (snd (volume_bars (pimage p) ! 0)) = Green
        \<and> snd (snd (volume_bars (pimage p) ! 2)) = Red)"
proof -
  let ?xs = "hd demo_rows # tl demo_rows"
  from volume_bar_colours [OF demo_read_ticker demo_world_ok demo_history]
  obtain sh p where sh: "dashboard_sheet (fst (main demo_env demo_world)) = Some sh"
    "pictures sh = [p]"
    and bars: "\<forall>i < length ?xs.
        (snd (snd (volume_bars (pimage p) ! i)) = Green \<longleftrightarrow> Close (?xs ! i) \<ge> Open (?xs ! i))
      \<and> (snd (snd (volume_bars (pimage p) ! i)) = Red \<longleftrightarrow> Close (?xs ! i) < Open (?xs ! i))"
    by blast
  have len: "(2::nat) < length ?xs" by (simp add: demo_rows_def)
  have c0: "Close (?xs ! 0) = Open (?xs ! 0)" by (simp add: demo_rows_def)
  have c2: "Close (?xs ! 2) < Open (?xs ! 2)" by (simp add: demo_rows_def)
  have b0: "snd (snd (volume_bars (pimage p) ! 0)) = Green"
    using bars[rule_format, of 0] len c0 by simp
  have b2: "snd (snd (volume_bars (pimage p) ! 2)) = Red"
    using bars[rule_format, of 2] len c2 by simp
  from sh b0 b2 len c0 c2 demo_read_ticker demo_world_ok demo_history[of "''aapl''"]
  show ?thesis by blast
qed

subsection \<open>Report sheet lifecycle\<close>





text \<open>
  C1, as stated: a zero-row run leaves the set of sheets as it was before the run, also
  when the workbook already had a sheet named "Stock Dashboard". It does not: the earlier
  report sheet is deleted at line 31, before the fetch, and only the new, empty sheet is
  deleted at line 47. The earlier report is gone after the run.
\<close>

theorem no_data_run_loses_earlier_report:
  "read_ticker demo_env_no_data = Inr ''aapl''
   \<and> rows (history demo_env_no_data ''aapl'') = []
   \<and> sheets (wbook demo_world_with_report) = [blank_sheet ''Sheet1'', old_report]
   \<and> snd (main demo_env_no_data demo_world_with_report) = Returned
   \<and> sheets (wbook (fst (main demo_env_no_data demo_world_with_report))) = [blank_sheet ''Sheet1'']
   \<and> set (sheets (wbook (fst (main demo_env_no_data demo_world_with_report))))
       \<noteq> set (sheets (wbook demo_world_with_report))"
proof -
  have t: "read_ticker demo_env_no_data = Inr ''aapl''"
    by (simp add: read_ticker_def demo_env_no_data_def demo_env_def)
  have h: "rows (history demo_env_no_data ''aapl'') = []"
    by (simp add: demo_env_no_data_def)
  have before: "sheets (wbook demo_world_with_report) = [blank_sheet ''Sheet1'', old_report]"
    by (simp add: demo_world_with_report_def)
  have others: "other_sheets (wbook demo_world_with_report) = [blank_sheet ''Sheet1'']"
    using lower_sheet1
    by (simp add: other_sheets_def demo_world_with_report_def old_report_def set_value_def
        is_dashboard_def same_name_def blank_sheet_def dashboard_name_def)
  have differ: "old_report \<noteq> blank_sheet ''Sheet1''"
  proof
    assume "old_report = blank_sheet ''Sheet1''"
    then have "sname old_report = sname (blank_sheet ''Sheet1'')" by simp
    then show False by (simp add: old_report_def set_value_def blank_sheet_def)
  qed
  from main_no_data[OF t demo_world_with_report_ok h] others before differ t h
  show ?thesis by auto
qed

text \<open>
  C1, amended: if the fetch returns zero rows for the entered ticker, on a workbook that
  has a sheet other than the report sheet, the run shows the "Invalid Ticker" alert,
  deletes the sheet it has just created and returns. The sheets after the run are the
  sheets before the run without the sheet named "Stock Dashboard": no new sheet is left
  behind, and the workbook has its pre-run sheets exactly when it had no report sheet
  before the run.
\<close>

theorem no_data_run_leaves_other_sheets:
  assumes "read_ticker e = Inr t" and "valid_book (wbook w)" and "has_other_sheet (wbook w)"
    and "rows (history e t) = []"
  shows "snd (main e w) = Returned
         \<and> shown (fst (main e w)) =
             shown w @ [\<lparr>title = ''Invalid Ticker'', body = invalid_ticker_body t\<rparr>]
         \<and> sheets (wbook (fst (main e w))) = filter (\<lambda>s. \<not> is_dashboard s) (sheets (wbook w))
         \<and> (sheets (wbook (fst (main e w))) = sheets (wbook w)
              \<longleftrightarrow> (\<forall>s \<in> set (sheets (wbook w)). \<not> is_dashboard s))"
proof -
  have eq: "(filter (\<lambda>s. \<not> is_dashboard s) (sheets (wbook w)) = sheets (wbook w))
              \<longleftrightarrow> (\<forall>s \<in> set (sheets (wbook w)). \<not> is_dashboard s)"
    by (simp add: filter_id_conv)
  show ?thesis
    using eq by (simp add: main_no_data[OF assms] other_sheets_def)
qed

theorem no_data_run_leaves_other_sheets_witness:
  "read_ticker demo_env_no_data = Inr ''aapl'' \<and> valid_book (wbook demo_world)
   \<and> has_other_sheet (wbook demo_world)
   \<and> rows (history demo_env_no_data ''aapl'') = []
   \<and> \<not> list_ex is_dashboard (sheets (wbook demo_world))
   \<and> snd (main demo_env_no_data demo_world) = Returned
   \<and> sheets (wbook (fst (main demo_env_no_data demo_world))) = sheets (wbook demo_world)"
proof -
  have t: "read_ticker demo_env_no_data = Inr ''aapl''"
    by (simp add: read_ticker_def demo_env_no_data_def demo_env_def)
  have h: "rows (history demo_env_no_data ''aapl'') = []"
    by (simp add: demo_env_no_data_def)
  have none: "\<forall>s \<in> set (sheets (wbook demo_world)). \<not> is_dashboard s"
    using lower_sheet1
    by (simp add: demo_world_def is_dashboard_def same_name_def blank_sheet_def)
  from no_data_run_leaves_other_sheets[OF t demo_world_ok h] t demo_world_ok h none
  show ?thesis by (simp add: list_ex_iff)
qed

subsection \<open>Issuer metadata\<close>

text \<open>Every statement of the report treats two sheets that agree off \<open>A\<close> alike.\<close>

lemma agree_off_refl: "agree_off A s s"
  by (simp add: agree_off_def)

lemma agree_upd_cell:
  "agree_off A s1 s2 \<Longrightarrow> agree_off A (upd_cell a f s1) (upd_cell a f s2)"
  by (cases a) (auto simp: agree_off_def)

lemma agree_upd_block:
  "agree_off A s1 s2 \<Longrightarrow> agree_off A (upd_block cs lo hi f s1) (upd_block cs lo hi f s2)"
  by (auto simp: agree_off_def)

lemma agree_pictures_add:
  "agree_off A s1 s2 \<Longrightarrow> agree_off A (pictures_add p s1) (pictures_add p s2)"
  by (simp add: agree_off_def pictures_add_def)

lemma agree_autofit:
  "agree_off A s1 s2 \<Longrightarrow> agree_off A (s1\<lparr>autofitted := cs\<rparr>) (s2\<lparr>autofitted := cs\<rparr>)"
  by (simp add: agree_off_def)

lemma agree_seq:
  assumes "\<And>f x y. f \<in> set fs \<Longrightarrow> agree_off A x y \<Longrightarrow> agree_off A (f x) (f y)"
    and "agree_off A s1 s2"
  shows "agree_off A (seq fs s1) (seq fs s2)"
  using assms
proof (induction fs arbitrary: s1 s2)
  case Nil
  then show ?case by simp
next
  case (Cons f fs)
  have "agree_off A (f s1) (f s2)" using Cons.prems by simp
  moreover have "\<And>g x y. g \<in> set fs \<Longrightarrow> agree_off A x y \<Longrightarrow> agree_off A (g x) (g y)"
    using Cons.prems(1) by simp
  ultimately show ?case using Cons.IH by simp
qed

lemma agree_write_table_rows:
  "agree_off A s1 s2 \<Longrightarrow> agree_off A (write_table_rows n xs s1) (write_table_rows n xs s2)"
proof (induction xs arbitrary: n s1 s2)
  case Nil
  then show ?case by simp
next
  case (Cons x xs)
  have "agree_off A (write_table_row n x s1) (write_table_row n x s2)"
    unfolding write_table_row_def
    by (rule agree_seq) (auto simp: set_defs intro: agree_upd_cell Cons.prems)
  then show ?case using Cons.IH by simp
qed

lemma agree_rest_of_report:
  assumes "agree_off A s1 s2"
  shows "agree_off A
           (seq [write_price r rs, write_change r rs, write_window r rs, write_table hist,
                 insert_chart t xs, write_timestamp n] s1)
           (seq [write_price r rs, write_change r rs, write_window r rs, write_table hist,
                 insert_chart t xs, write_timestamp n] s2)"
proof (rule agree_seq[OF _ assms])
  fix f x y
  assume f: "f \<in> set [write_price r rs, write_change r rs, write_window r rs, write_table hist,
                       insert_chart t xs, write_timestamp n]"
    and xy: "agree_off A x y"
  have cellwise: "\<And>fs. (\<And>g u v. g \<in> set fs \<Longrightarrow> agree_off A u v \<Longrightarrow> agree_off A (g u) (g v))
                    \<Longrightarrow> agree_off A (seq fs x) (seq fs y)"
    using xy by (rule agree_seq[rotated])
  consider "f = write_price r rs" | "f = write_change r rs" | "f = write_window r rs"
    | "f = write_table hist" | "f = insert_chart t xs" | "f = write_timestamp n"
    using f by auto
  then show "agree_off A (f x) (f y)"
  proof cases
    case 1
    then show ?thesis unfolding 1 write_price_def
      by (intro cellwise) (auto simp: set_defs intro: agree_upd_cell)
  next
    case 2
    then show ?thesis unfolding 2 write_change_def
      by (intro cellwise) (auto simp: set_defs intro: agree_upd_cell)
  next
    case 3
    then show ?thesis unfolding 3 write_window_def
      by (intro cellwise) (auto simp: set_defs intro: agree_upd_cell)
  next
    case 4
    have hdr: "\<And>u v. agree_off A u v \<Longrightarrow>
        agree_off A (write_table_header (index_name hist) u) (write_table_header (index_name hist) v)"
      unfolding write_table_header_def
      by (rule agree_seq) (auto simp: set_defs intro: agree_upd_cell)
    show ?thesis unfolding 4 write_table_def
      by (intro cellwise)
         (auto simp: set_defs intro: agree_upd_cell agree_upd_block agree_autofit
            agree_write_table_rows hdr)
  next
    case 5
    then show ?thesis using xy by (simp add: insert_chart_def agree_pictures_add)
  next
    case 6
    then show ?thesis unfolding 6 write_timestamp_def
      by (intro cellwise) (auto simp: set_defs intro: agree_upd_cell)
  qed
qed

lemma report_agree_off_info:
  assumes "history e' = history e" and "now e' = now e"
  shows "agree_off {(ColB, 4), (ColB, 5)} (report e' t r rs) (report e t r rs)"
proof -
  let ?s = "write_header t (blank_sheet dashboard_name)"
  have "agree_off {(ColB, 4), (ColB, 5)}
          (write_stock_info t (company_info e' t) ?s) (write_stock_info t (company_info e t) ?s)"
    by (simp add: agree_off_def write_stock_info_def set_defs)
  from agree_rest_of_report[OF this]
  show ?thesis
    by (simp add: report_def write_report_def assms)
qed

text \<open>
  C8. When the issuer-metadata fetch fails in a run that reaches it, the failure is
  swallowed: the run completes, the only alert shown is the success alert, and the report
  has the uppercased ticker as the company name in B4 and "N/A" as the sector in B5. The
  rest is unchanged: against a run in which the fetch succeeds, with whatever metadata,
  the report differs at most in the cells B4 and B5, and the alerts are the same.
\<close>

theorem info_failure_gives_placeholders:
  assumes "read_ticker e = Inr t" and "valid_book (wbook w)" and "has_other_sheet (wbook w)"
    and "rows (history e t) = r # rs" and "info e t = None"
  shows "snd (main e w) = Returned
         \<and> shown (fst (main e w)) =
             shown w @ [\<lparr>title = ''Success'', body = success_body t r rs\<rparr>]
         \<and> (\<exists>sh. dashboard_sheet (fst (main e w)) = Some sh
              \<and> cvalue (cells sh (ColB, 4)) = Str [Lit (upper t)]
              \<and> cvalue (cells sh (ColB, 5)) = Str [Lit ''N/A'']
              \<and> (\<forall>m. \<exists>sh'. dashboard_sheet (fst (main (e\<lparr>info := \<lambda>_. Some m\<rparr>) w)) = Some sh'
                     \<and> agree_off {(ColB, 4), (ColB, 5)} sh' sh
                     \<and> shown (fst (main (e\<lparr>info := \<lambda>_. Some m\<rparr>) w)) = shown (fst (main e w))
                     \<and> snd (main (e\<lparr>info := \<lambda>_. Some m\<rparr>) w) = Returned))"
proof -
  have returned: "snd (main e w) = Returned"
    and alerts: "shown (fst (main e w)) =
        shown w @ [\<lparr>title = ''Success'', body = success_body t r rs\<rparr>]"
    by (simp_all add: main_report[OF assms(1-4)])
  have sheet: "dashboard_sheet (fst (main e w)) = Some (report e t r rs)"
    by (rule dashboard_sheet_main[OF assms(1-4)])
  have placeholder: "company_info e t = [''longName'' \<mapsto> upper t, ''sector'' \<mapsto> ''N/A'']"
    using assms(5) by (simp add: company_info_def)
  have b4: "cvalue (cells (report e t r rs) (ColB, 4)) = Str [Lit (upper t)]"
    and b5: "cvalue (cells (report e t r rs) (ColB, 5)) = Str [Lit ''N/A'']"
    by (simp_all add: report_B4_B5 placeholder info_get_def)
  have other: "\<exists>sh'. dashboard_sheet (fst (main (e\<lparr>info := \<lambda>_. Some m\<rparr>) w)) = Some sh'
        \<and> agree_off {(ColB, 4), (ColB, 5)} sh' (report e t r rs)
        \<and> shown (fst (main (e\<lparr>info := \<lambda>_. Some m\<rparr>) w)) = shown (fst (main e w))
        \<and> snd (main (e\<lparr>info := \<lambda>_. Some m\<rparr>) w) = Returned" for m
  proof -
    let ?e' = "e\<lparr>info := \<lambda>_. Some m\<rparr>"
    have t': "read_ticker ?e' = Inr t" using assms(1) by (simp add: read_ticker_def)
    have h': "rows (history ?e' t) = r # rs" using assms(4) by simp
    have "dashboard_sheet (fst (main ?e' w)) = Some (report ?e' t r rs)"
      by (rule dashboard_sheet_main[OF t' assms(2,3) h'])
    moreover have "agree_off {(ColB, 4), (ColB, 5)} (report ?e' t r rs) (report e t r rs)"
      by (rule report_agree_off_info) simp_all
    moreover have "shown (fst (main ?e' w)) = shown (fst (main e w))"
      by (simp add: main_report[OF t' assms(2,3) h'] alerts)
    moreover have "snd (main ?e' w) = Returned"
      by (simp add: main_report[OF t' assms(2,3) h'])
    ultimately show ?thesis by blast
  qed
  from returned alerts sheet b4 b5 other show ?thesis by blast
qed

theorem info_failure_gives_placeholders_witness:
  "read_ticker demo_env = Inr ''aapl'' \<and> valid_book (wbook demo_world)
   \<and> has_other_sheet (wbook demo_world)
   \<and> rows (history demo_env ''aapl'') = hd demo_rows # tl demo_rows
   \<and> info demo_env ''aapl'' = None
   \<and> snd (main demo_env demo_world) = Returned
   \<and> map title (shown (fst (main demo_env demo_world))) = [''Success'']
   \<and> map_option cvalue (report_cell (fst (main demo_env demo_world)) (ColB, 4))
       = Some (Str [Lit ''AAPL''])
   \<and> map_option cvalue (report_cell (fst (main demo_env demo_world)) (ColB, 5))
       = Some (Str [Lit ''N/A''])"
proof -
  have i: "info demo_env ''aapl'' = None" by (simp add: demo_env_def)
  have u: "upper ''aapl'' = ''AAPL''" by code_simp
  have s: "shown demo_world = []" by (simp add: demo_world_def)
  from info_failure_gives_placeholders [OF demo_read_ticker demo_world_ok demo_history i]
    demo_read_ticker demo_world_ok demo_history[of "''aapl''"] i u s
  show ?thesis by (auto simp: report_cell_def)
qed

subsection \<open>Running the macro twice\<close>

lemma main_report_keeps_book_shape:
  assumes "read_ticker e = Inr t" and "valid_book (wbook w)" and "has_other_sheet (wbook w)"
    and "rows (history e t) = r # rs"
  shows "valid_book (wbook (fst (main e w)))" "has_other_sheet (wbook (fst (main e w)))"
    "other_sheets (wbook (fst (main e w))) = other_sheets (wbook w)"
proof -
  let ?S = "other_sheets (wbook w)"
  obtain s ss where S: "?S = s # ss"
    using other_sheets_nonempty[OF assms(3)] by (cases ?S) auto
  have nd: "\<forall>x \<in> set ?S. \<not> is_dashboard x" by (simp add: other_sheets_def)
  have rep: "is_dashboard (report e t r rs)" by (rule is_dashboard_report)
  have dist: "distinct (map (\<lambda>x. lower (sname x)) ?S)"
    using assms(2) unfolding valid_book_def other_sheets_def by (rule distinct_map_filter)
  have fresh: "lower (sname (report e t r rs)) \<notin> set (map (\<lambda>x. lower (sname x)) ?S)"
    using other_sheets_no_dashboard[of "wbook w"] by (simp add: report_def blank_sheet_def)
  have sheets: "sheets (wbook (fst (main e w))) = s # report e t r rs # ss"
    by (simp add: main_report[OF assms] S)
  show "valid_book (wbook (fst (main e w)))"
    using dist fresh unfolding valid_book_def sheets S by auto
  show "has_other_sheet (wbook (fst (main e w)))"
    using nd unfolding has_other_sheet_def sheets S by simp
  have "filter (\<lambda>x. \<not> is_dashboard x) (s # report e t r rs # ss) = s # ss"
    using nd rep unfolding S by (simp add: filter_id_conv)
  then show "other_sheets (wbook (fst (main e w))) = ?S"
    by (simp add: other_sheets_def[of "wbook (fst (main e w))"] sheets S)
qed

lemma report_clock:
  assumes "history e2 t = history e1 t" and "info e2 t = info e1 t"
  shows "report e2 t r rs =
           set_value (ColA, 12) (Str [Lit ''Last updated: '', Strftime ''%Y-%m-%d %H:%M:%S'' (now e2)])
             (report e1 t r rs)"
proof -
  have m: "company_info e2 t = company_info e1 t" using assms(2) by (simp add: company_info_def)
  have "cells (report e2 t r rs) = cells (set_value (ColA, 12)
          (Str [Lit ''Last updated: '', Strftime ''%Y-%m-%d %H:%M:%S'' (now e2)]) (report e1 t r rs))"
    by (rule ext) (simp add: report_def write_report_def write_timestamp_def set_defs m assms(1))
  moreover have "sname (report e2 t r rs) = sname (report e1 t r rs)"
    "autofitted (report e2 t r rs) = autofitted (report e1 t r rs)"
    "pictures (report e2 t r rs) = pictures (report e1 t r rs)"
    by (simp_all add: report_def write_report_def write_timestamp_def set_defs m assms(1))
  ultimately show ?thesis by (simp add: set_value_def)
qed

lemma dashboard_count_after_report:
  assumes "read_ticker e = Inr t" and "valid_book (wbook w)" and "has_other_sheet (wbook w)"
    and "rows (history e t) = r # rs"
  shows "filter is_dashboard (sheets (wbook (fst (main e w)))) = [report e t r rs]"
    and "length (sheets (wbook (fst (main e w)))) = Suc (length (other_sheets (wbook w)))"
proof -
  let ?S = "other_sheets (wbook w)"
  obtain s ss where S: "?S = s # ss"
    using other_sheets_nonempty[OF assms(3)] by (cases ?S) auto
  have nd: "\<forall>x \<in> set ?S. \<not> is_dashboard x" by (simp add: other_sheets_def)
  have rep: "is_dashboard (report e t r rs)" by (rule is_dashboard_report)
  have sheets: "sheets (wbook (fst (main e w))) = s # report e t r rs # ss"
    by (simp add: main_report[OF assms] S)
  have "filter is_dashboard (s # report e t r rs # ss) = [report e t r rs]"
    using nd rep unfolding S by (simp add: filter_empty_conv)
  then show "filter is_dashboard (sheets (wbook (fst (main e w)))) = [report e t r rs]"
    by (simp add: sheets)
  show "length (sheets (wbook (fst (main e w)))) = Suc (length ?S)"
    by (simp add: sheets S)
qed

text \<open>
  C2, as stated: two runs in succession on the same ticker, the provider returning the same
  rows, leave report sheets with identical cell contents. They do not when the clock has
  moved on between the runs: cell A12 holds the time of the run.
\<close>

theorem rerun_changes_timestamp_cell:
  "ticker_range demo_env_later = ticker_range demo_env
   \<and> history demo_env_later = history demo_env
   \<and> map_option cvalue (report_cell demo_after_first_run (ColA, 12))
       = Some (Str [Lit ''Last updated: '', Strftime ''%Y-%m-%d %H:%M:%S'' 1000])
   \<and> map_option cvalue (report_cell demo_after_second_run (ColA, 12))
       = Some (Str [Lit ''Last updated: '', Strftime ''%Y-%m-%d %H:%M:%S'' 4600])
   \<and> map_option cvalue (report_cell demo_after_first_run (ColA, 12))
       \<noteq> map_option cvalue (report_cell demo_after_second_run (ColA, 12))"
proof -
  have t2: "read_ticker demo_env_later = Inr ''aapl''"
    by (simp add: read_ticker_def demo_env_later_def demo_env_def)
  have h2: "rows (history demo_env_later t) = hd demo_rows # tl demo_rows" for t
    by (simp add: demo_env_later_def demo_env_def demo_rows_def)
  have shape: "valid_book (wbook demo_after_first_run)"
    "has_other_sheet (wbook demo_after_first_run)"
    unfolding demo_after_first_run_def
    by (rule main_report_keeps_book_shape[OF demo_read_ticker demo_world_ok demo_history])+
  have a12: "cvalue (cells (report e t r rs) (ColA, 12)) =
      Str [Lit ''Last updated: '', Strftime ''%Y-%m-%d %H:%M:%S'' (now e)]" for e t r rs
    by (simp add: report_def write_report_def write_timestamp_def set_defs)
  have first: "dashboard_sheet demo_after_first_run =
      Some (report demo_env ''aapl'' (hd demo_rows) (tl demo_rows))"
    unfolding demo_after_first_run_def
    by (rule dashboard_sheet_main[OF demo_read_ticker demo_world_ok demo_history])
  have second: "dashboard_sheet demo_after_second_run =
      Some (report demo_env_later ''aapl'' (hd demo_rows) (tl demo_rows))"
    unfolding demo_after_second_run_def
    by (rule dashboard_sheet_main[OF t2 shape h2])
  have n1: "now demo_env = 1000" and n2: "now demo_env_later = 4600"
    by (simp_all add: demo_env_later_def demo_env_def)
  have same: "ticker_range demo_env_later = ticker_range demo_env"
    "history demo_env_later = history demo_env"
    by (simp_all add: demo_env_later_def)
  show ?thesis
    using same by (simp add: report_cell_def first second a12 n1 n2)
qed

text \<open>
  C2, amended: two runs in succession on the same ticker input, on a workbook that has a
  sheet other than the report sheet, the provider returning the same rows and the same
  issuer metadata both times, leave report sheets that are identical except for the value
  of the timestamp cell A12, which holds the time of the respective run; the two sheets are
  equal when the clock reads the same. After each run the workbook has exactly one sheet
  named "Stock Dashboard", the same number of sheets, and the report sheet has exactly one
  picture, named "stock_chart".
\<close>

theorem rerun_same_report_but_timestamp:
  assumes "read_ticker e1 = Inr t" and "ticker_range e2 = ticker_range e1"
    and "history e2 t = history e1 t" and "info e2 t = info e1 t"
    and "valid_book (wbook w)" and "has_other_sheet (wbook w)"
    and "rows (history e1 t) = r # rs"
  shows "\<exists>sh1 sh2.
           dashboard_sheet (fst (main e1 w)) = Some sh1
         \<and> dashboard_sheet (fst (main e2 (fst (main e1 w)))) = Some sh2
         \<and> sh2 = set_value (ColA, 12)
                   (Str [Lit ''Last updated: '', Strftime ''%Y-%m-%d %H:%M:%S'' (now e2)]) sh1
         \<and> (\<forall>a. a \<noteq> (ColA, 12) \<longrightarrow> cells sh2 a = cells sh1 a)
         \<and> (now e2 = now e1 \<longrightarrow> sh2 = sh1)
         \<and> filter is_dashboard (sheets (wbook (fst (main e1 w)))) = [sh1]
         \<and> filter is_dashboard (sheets (wbook (fst (main e2 (fst (main e1 w)))))) = [sh2]
         \<and> length (sheets (wbook (fst (main e2 (fst (main e1 w))))))
             = length (sheets (wbook (fst (main e1 w))))
         \<and> map pname (pictures sh1) = [''stock_chart'']
         \<and> map pname (pictures sh2) = [''stock_chart'']"
proof -
  let ?w1 = "fst (main e1 w)"
  let ?v = "Str [Lit ''Last updated: '', Strftime ''%Y-%m-%d %H:%M:%S'' (now e2)]"
  note run1 = assms(1,5,6,7)
  have t2: "read_ticker e2 = Inr t"
    using assms(1) by (simp add: read_ticker_def assms(2))
  have h2: "rows (history e2 t) = r # rs" using assms(3,7) by simp
  note shape = main_report_keeps_book_shape[OF run1]
  note run2 = t2 shape(1,2) h2
  have s1: "dashboard_sheet ?w1 = Some (report e1 t r rs)"
    by (rule dashboard_sheet_main[OF run1])
  have s2: "dashboard_sheet (fst (main e2 ?w1)) = Some (report e2 t r rs)"
    by (rule dashboard_sheet_main[OF run2])
  have clock: "report e2 t r rs = set_value (ColA, 12) ?v (report e1 t r rs)"
    by (rule report_clock[OF assms(3,4)])
  have cells: "\<forall>a. a \<noteq> (ColA, 12) \<longrightarrow> cells (report e2 t r rs) a = cells (report e1 t r rs) a"
    by (simp add: clock set_value_def)
  have same: "now e2 = now e1 \<longrightarrow> report e2 t r rs = report e1 t r rs"
  proof
    assume n: "now e2 = now e1"
    have "report e1 t r rs = set_value (ColA, 12) ?v (report e1 t r rs)"
      using report_clock[of e1 t e1 r rs] by (simp add: n)
    with clock show "report e2 t r rs = report e1 t r rs" by simp
  qed
  have c1: "filter is_dashboard (sheets (wbook ?w1)) = [report e1 t r rs]"
    by (rule dashboard_count_after_report(1)[OF run1])
  have c2: "filter is_dashboard (sheets (wbook (fst (main e2 ?w1)))) = [report e2 t r rs]"
    by (rule dashboard_count_after_report(1)[OF run2])
  have len: "length (sheets (wbook (fst (main e2 ?w1)))) = length (sheets (wbook ?w1))"
    by (simp add: dashboard_count_after_report(2)[OF run1]
        dashboard_count_after_report(2)[OF run2] shape(3))
  have p1: "map pname (pictures (report e1 t r rs)) = [''stock_chart'']"
    and p2: "map pname (pictures (report e2 t r rs)) = [''stock_chart'']"
    by (simp_all add: report_pictures)
  show ?thesis
  proof (intro exI conjI)
    show "dashboard_sheet (fst (main e1 w)) = Some (report e1 t r rs)" by (rule s1)
    show "dashboard_sheet (fst (main e2 (fst (main e1 w)))) = Some (report e2 t r rs)"
      by (rule s2)
    show "report e2 t r rs = set_value (ColA, 12) ?v (report e1 t r rs)" by (rule clock)
    show "\<forall>a. a \<noteq> (ColA, 12) \<longrightarrow> cells (report e2 t r rs) a = cells (report e1 t r rs) a"
      by (rule cells)
    show "now e2 = now e1 \<longrightarrow> report e2 t r rs = report e1 t r rs" by (rule same)
    show "filter is_dashboard (sheets (wbook (fst (main e1 w)))) = [report e1 t r rs]"
      by (rule c1)
    show "filter is_dashboard (sheets (wbook (fst (main e2 (fst (main e1 w)))))) = [report e2 t r rs]"
      by (rule c2)
    show "length (sheets (wbook (fst (main e2 (fst (main e1 w))))))
            = length (sheets (wbook (fst (main e1 w))))" by (rule len)
    show "map pname (pictures (report e1 t r rs)) = [''stock_chart'']" by (rule p1)
    show "map pname (pictures (report e2 t r rs)) = [''stock_chart'']" by (rule p2)
  qed
qed

theorem rerun_same_report_but_timestamp_witness:
  "read_ticker demo_env = Inr ''aapl'' \<and> ticker_range demo_env_later = ticker_range demo_env
   \<and> history demo_env_later ''aapl'' = history demo_env ''aapl''
   \<and> info demo_env_later ''aapl'' = info demo_env ''aapl''
   \<and> valid_book (wbook demo_world) \<and> has_other_sheet (wbook demo_world)
   \<and> rows (history demo_env ''aapl'') = hd demo_rows # tl demo_rows
   \<and> (\<exists>sh1 sh2. dashboard_sheet demo_after_first_run = Some sh1
         \<and> dashboard_sheet demo_after_second_run = Some sh2
         \<and> sh2 = set_value (ColA, 12)
                   (Str [Lit ''Last updated: '', Strftime ''%Y-%m-%d %H:%M:%S'' 4600]) sh1
         \<and> cells sh2 (ColB, 7) = cells sh1 (ColB, 7)
         \<and> length (sheets (wbook demo_after_second_run)) = 2
         \<and> filter is_dashboard (sheets (wbook demo_after_second_run)) = [sh2])"
proof -
  have same: "ticker_range demo_env_later = ticker_range demo_env"
    "history demo_env_later ''aapl'' = history demo_env ''aapl''"
    "info demo_env_later ''aapl'' = info demo_env ''aapl''"
    by (simp_all add: demo_env_later_def)
  have n2: "now demo_env_later = 4600" by (simp add: demo_env_later_def)
  have os: "other_sheets (wbook demo_world) = [blank_sheet ''Sheet1'']"
    using lower_sheet1
    by (simp add: other_sheets_def demo_world_def is_dashboard_def same_name_def blank_sheet_def)
  have len1: "length (sheets (wbook (fst (main demo_env demo_world)))) = 2"
    by (simp add: dashboard_count_after_report(2)[OF demo_read_ticker demo_world_ok demo_history]
        os)
  from rerun_same_report_but_timestamp
    [OF demo_read_ticker same demo_world_ok demo_history]
  obtain sh1 sh2 where r:
    "dashboard_sheet (fst (main demo_env demo_world)) = Some sh1"
    "dashboard_sheet (fst (main demo_env_later (fst (main demo_env demo_world)))) = Some sh2"
    "sh2 = set_value (ColA, 12)
             (Str [Lit ''Last updated: '', Strftime ''%Y-%m-%d %H:%M:%S'' (now demo_env_later)]) sh1"
    "\<forall>a. a \<noteq> (ColA, 12) \<longrightarrow> cells sh2 a = cells sh1 a"
    "filter is_dashboard (sheets (wbook (fst (main demo_env_later (fst (main demo_env demo_world))))))
       = [sh2]"
    "length (sheets (wbook (fst (main demo_env_later (fst (main demo_env demo_world))))))
       = length (sheets (wbook (fst (main demo_env demo_world))))"
    by blast
  have b7: "cells sh2 (ColB, 7) = cells sh1 (ColB, 7)" using r(4) by simp
  have f1: "dashboard_sheet demo_after_first_run = Some sh1"
    using r(1) by (simp only: demo_after_first_run_def)
  have f2: "dashboard_sheet demo_after_second_run = Some sh2"
    using r(2) by (simp only: demo_after_second_run_def demo_after_first_run_def)
  have f3: "sh2 = set_value (ColA, 12)
      (Str [Lit ''Last updated: '', Strftime ''%Y-%m-%d %H:%M:%S'' 4600]) sh1"
    using r(3) by (simp only: n2)
  have f4: "length (sheets (wbook demo_after_second_run)) = 2"
    using r(6) len1 by (simp only: demo_after_second_run_def demo_after_first_run_def)
  have f5: "filter is_dashboard (sheets (wbook demo_after_second_run)) = [sh2]"
    using r(5) by (simp only: demo_after_second_run_def demo_after_first_run_def)
  from f1 f2 f3 b7 f4 f5 have "\<exists>sh1 sh2. dashboard_sheet demo_after_first_run = Some sh1
         \<and> dashboard_sheet demo_after_second_run = Some sh2
         \<and> sh2 = set_value (ColA, 12)
                   (Str [Lit ''Last updated: '', Strftime ''%Y-%m-%d %H:%M:%S'' 4600]) sh1
         \<and> cells sh2 (ColB, 7) = cells sh1 (ColB, 7)
         \<and> length (sheets (wbook demo_after_second_run)) = 2
         \<and> filter is_dashboard (sheets (wbook demo_after_second_run)) = [sh2]"
    by blast
  with same demo_read_ticker demo_world_ok demo_history[of "''aapl''"]
  show ?thesis by (intro conjI) assumption+
qed

end
